theory Spec2Isabelle
  imports Complex_Main
begin

section \<open>JavaScript values\<close>

text \<open>
  JavaScript numbers are modelled as real numbers (no rounding error, no NaN), strings
  as \<open>string\<close>. A property that may be missing from an object is an \<open>option\<close>:
  \<open>None\<close> is \<^verbatim>\<open>undefined\<close>.
\<close>

text \<open>\<^verbatim>\<open>Math.round\<close>: the nearest integer, halves rounded up.\<close>

definition js_round :: "real \<Rightarrow> real" where
  "js_round x = of_int \<lfloor>x + 1 / 2\<rfloor>"

text \<open>\<^verbatim>\<open>Math.round(x * 100) / 100\<close>\<close>

definition round2 :: "real \<Rightarrow> real" where
  "round2 x = js_round (x * 100) / 100"

text \<open>Truthiness of a number and of a string: \<open>0\<close>, \<open>''''\<close> and \<^verbatim>\<open>undefined\<close> are falsy.\<close>

fun truthy_num :: "real option \<Rightarrow> bool" where
  "truthy_num None = False"
| "truthy_num (Some v) = (v \<noteq> 0)"

fun truthy_str :: "string option \<Rightarrow> bool" where
  "truthy_str None = False"
| "truthy_str (Some s) = (s \<noteq> [])"

text \<open>\<^verbatim>\<open>x || d\<close> on numbers and on strings.\<close>

fun or_num :: "real option \<Rightarrow> real \<Rightarrow> real" where
  "or_num None d = d"
| "or_num (Some v) d = (if v = 0 then d else v)"

fun or_str :: "string option \<Rightarrow> string \<Rightarrow> string" where
  "or_str None d = d"
| "or_str (Some s) d = (if s = [] then d else s)"

text \<open>\<^verbatim>\<open>String.prototype.toLowerCase\<close> on ASCII letters.\<close>

definition lower_char :: "char \<Rightarrow> char" where
  "lower_char c =
     (case map_of (zip ''ABCDEFGHIJKLMNOPQRSTUVWXYZ'' ''abcdefghijklmnopqrstuvwxyz'') c of
        Some l \<Rightarrow> l
      | None \<Rightarrow> c)"

definition toLowerCase :: "string \<Rightarrow> string" where
  "toLowerCase s = map lower_char s"

text \<open>Template-literal rendering of an integer, as in \<^verbatim>\<open>`${day}-1`\<close>.\<close>

definition digit_char :: "nat \<Rightarrow> char" where
  "digit_char d = ''0123456789'' ! (d mod 10)"

fun show_nat :: "nat \<Rightarrow> string" where
  "show_nat n = (if n < 10 then [digit_char n] else show_nat (n div 10) @ [digit_char n])"

declare show_nat.simps [simp del]

definition show_int :: "int \<Rightarrow> string" where
  "show_int i = (if i < 0 then CHR ''-'' # show_nat (nat (- i)) else show_nat (nat i))"

section \<open>Dates and the local clock\<close>

text \<open>
  A \<^verbatim>\<open>Date\<close> is its time value: milliseconds since the epoch, in UTC. The time zone of
  the server process is a parameter of the model, in the form of ECMAScript's abstract
  operation \<^verbatim>\<open>LocalTZA(t, isUTC)\<close>: the offset of local time from UTC in milliseconds,
  for a UTC time value \<open>t\<close> when \<open>isUTC\<close> holds and for a local time value otherwise.
  The dates of a request are date-only ISO strings, given by their day number (days
  since the epoch), and a date printed by \<^verbatim>\<open>toISOString().split('T')[0]\<close> is given by
  its day number too.
\<close>

type_synonym time_zone = "int \<Rightarrow> bool \<Rightarrow> int"

definition msPerDay :: int where
  "msPerDay = 86400000"

text \<open>\<^verbatim>\<open>Day(t)\<close> and \<^verbatim>\<open>TimeWithinDay(t)\<close> of ECMAScript.\<close>

definition Day :: "int \<Rightarrow> int" where
  "Day t = t div msPerDay"

definition TimeWithinDay :: "int \<Rightarrow> int" where
  "TimeWithinDay t = t mod msPerDay"

text \<open>\<^verbatim>\<open>LocalTime(t)\<close> and \<^verbatim>\<open>UTC(t)\<close> of ECMAScript.\<close>

definition LocalTime :: "time_zone \<Rightarrow> int \<Rightarrow> int" where
  "LocalTime tz t = t + tz t True"

definition UTC :: "time_zone \<Rightarrow> int \<Rightarrow> int" where
  "UTC tz t = t - tz t False"

text \<open>\<^verbatim>\<open>new Date('YYYY-MM-DD')\<close>: midnight UTC of the day.\<close>

definition newDate :: "int \<Rightarrow> int" where
  "newDate dayNumber = dayNumber * msPerDay"

text \<open>
  \<^verbatim>\<open>d.setDate(d.getDate() + k)\<close>: the local calendar day moves by \<open>k\<close>, the local time
  within the day stays, and the result is read back as a UTC time value.
\<close>

definition setDateBy :: "time_zone \<Rightarrow> int \<Rightarrow> int \<Rightarrow> int" where
  "setDateBy tz t k =
     UTC tz ((Day (LocalTime tz t) + k) * msPerDay + TimeWithinDay (LocalTime tz t))"

text \<open>\<^verbatim>\<open>d.toISOString().split('T')[0]\<close>: the UTC calendar day.\<close>

definition toISODate :: "int \<Rightarrow> int" where
  "toISODate t = Day t"

text \<open>
  \<^verbatim>\<open>differenceInDays\<close> of the library date-fns, which is not part of the repository:
  the number of full days between two dates on the local clock, by the library's
  algorithm. \<open>compareLocalAsc\<close> compares the local calendar fields, and
  \<open>differenceInCalendarDays\<close> is the difference of the local calendar days.
\<close>

definition compareLocalAsc :: "time_zone \<Rightarrow> int \<Rightarrow> int \<Rightarrow> int" where
  "compareLocalAsc tz dateLeft dateRight = sgn (LocalTime tz dateLeft - LocalTime tz dateRight)"

definition differenceInCalendarDays :: "time_zone \<Rightarrow> int \<Rightarrow> int \<Rightarrow> int" where
  "differenceInCalendarDays tz dateLeft dateRight =
     Day (LocalTime tz dateLeft) - Day (LocalTime tz dateRight)"

definition differenceInDays :: "time_zone \<Rightarrow> int \<Rightarrow> int \<Rightarrow> int" where
  "differenceInDays tz dateLeft dateRight =
     (let sign = compareLocalAsc tz dateLeft dateRight;
          difference = \<bar>differenceInCalendarDays tz dateLeft dateRight\<bar>;
          dateLeft' = setDateBy tz dateLeft (- sign * difference);
          isLastDayNotFull = (if compareLocalAsc tz dateLeft' dateRight = - sign then 1 else 0)
      in sign * (difference - isLastDayNotFull))"

text \<open>A zone with a constant offset, such as UTC.\<close>

definition fixedOffset :: "int \<Rightarrow> time_zone" where
  "fixedOffset c = (\<lambda>t isUTC. c)"

text \<open>
  Europe/London in 2026: one hour ahead of UTC from 29 March 01:00 UTC (day 20541) to
  25 October 01:00 UTC (day 20751). A local time skipped or repeated at a transition
  takes the offset in force before it.
\<close>

definition europeLondon2026 :: time_zone where
  "europeLondon2026 t isUTC =
     (let startDST = 20541 * msPerDay + 3600000;
          endDST = 20751 * msPerDay + 3600000
      in if isUTC
         then (if startDST \<le> t \<and> t < endDST then 3600000 else 0)
         else (if startDST + 3600000 \<le> t \<and> t < endDST + 3600000 then 3600000 else 0))"

section \<open>Emission factor table\<close>

text \<open>
  The rows of \<^verbatim>\<open>emission_factors\<close> (migration and \<^verbatim>\<open>EmissionFactor\<close> model).
  \<open>factor_kg_per_unit\<close> is the value \<^verbatim>\<open>parseFloat\<close> reads from the decimal column.
\<close>

record emission_factor =
  category :: string
  sub_category :: string
  factor_kg_per_unit :: real
  unit :: string
  is_active :: bool

text \<open>A query either fails (the database call throws) or runs on the table.\<close>

datatype database = Unavailable | Table "emission_factor list"

datatype error = QueryFailed | GeocodeFailed | ProviderFailed | InvalidItinerary

text \<open>
  \<^verbatim>\<open>EmissionFactor.findByCategoryAndSubCategory\<close>:
  \<^verbatim>\<open>SELECT * ... WHERE category = $1 AND sub_category = $2 AND is_active = true\<close>,
  then \<^verbatim>\<open>result.rows[0]\<close>.
\<close>

fun findByCategoryAndSubCategory ::
  "database \<Rightarrow> string \<Rightarrow> string \<Rightarrow> error + emission_factor option" where
  "findByCategoryAndSubCategory Unavailable cat sub = Inl QueryFailed"
| "findByCategoryAndSubCategory (Table rows) cat sub =
     Inr (find (\<lambda>r. category r = cat \<and> sub_category r = sub \<and> is_active r) rows)"

section \<open>Carbon calculator\<close>

definition modeMap :: "string \<rightharpoonup> string" where
  "modeMap = map_of
     [(''car'', ''car_average''),
      (''train'', ''train_national''),
      (''bus'', ''bus_local''),
      (''flight'', ''flight_medium_haul''),
      (''taxi'', ''taxi_regular''),
      (''bicycle'', ''bicycle''),
      (''walking'', ''walking'')]"

text \<open>
  \<^verbatim>\<open>modeMap[mode.toLowerCase()] || mode\<close>. The map holds the seven own properties of
  the object literal. The properties every object inherits (\<^verbatim>\<open>constructor\<close>,
  \<^verbatim>\<open>__proto__\<close>) are not modelled: for a mode that lower-cases to one of these two
  names the code queries a key that is not a string, where the model queries the mode.
  The same holds for \<open>activityMap\<close> below.
\<close>

definition transportSubCategory :: "string \<Rightarrow> string" where
  "transportSubCategory mode = or_str (modeMap (toLowerCase mode)) mode"

text \<open>
  \<^verbatim>\<open>CarbonService.calculateTransportEmissions(mode, distanceKm)\<close>. An error of either
  lookup is caught by the function's \<^verbatim>\<open>catch\<close>, which returns 0.
\<close>

definition calculateTransportEmissions :: "database \<Rightarrow> string \<Rightarrow> real \<Rightarrow> real" where
  "calculateTransportEmissions db mode distanceKm =
     (if mode = [] \<or> distanceKm = 0 \<or> distanceKm \<le> 0 then 0
      else
        (case findByCategoryAndSubCategory db ''transport'' (transportSubCategory mode) of
           Inl e \<Rightarrow> 0
         | Inr None \<Rightarrow>
             (case findByCategoryAndSubCategory db ''transport'' ''car_average'' of
                Inl e \<Rightarrow> 0
              | Inr (Some defaultFactor) \<Rightarrow> distanceKm * factor_kg_per_unit defaultFactor
              | Inr None \<Rightarrow> distanceKm * 0.171)
         | Inr (Some factor) \<Rightarrow> distanceKm * factor_kg_per_unit factor))"

text \<open>\<^verbatim>\<open>CarbonService.calculateAccommodationEmissions(type, nights)\<close>\<close>

definition calculateAccommodationEmissions :: "database \<Rightarrow> string \<Rightarrow> real \<Rightarrow> real" where
  "calculateAccommodationEmissions db type nights =
     (if type = [] \<or> nights = 0 \<or> nights \<le> 0 then 0
      else
        (case findByCategoryAndSubCategory db ''accommodation'' type of
           Inl e \<Rightarrow> 0
         | Inr None \<Rightarrow>
             (case findByCategoryAndSubCategory db ''accommodation'' ''hotel_standard'' of
                Inl e \<Rightarrow> 0
              | Inr (Some defaultFactor) \<Rightarrow> nights * factor_kg_per_unit defaultFactor
              | Inr None \<Rightarrow> nights * 20.9)
         | Inr (Some factor) \<Rightarrow> nights * factor_kg_per_unit factor))"

definition activityMap :: "string \<rightharpoonup> string" where
  "activityMap = map_of
     [(''museum'', ''museum_indoor''),
      (''restaurant'', ''restaurant_meal''),
      (''cafe'', ''cafe_snack''),
      (''shopping'', ''shopping_mall''),
      (''hiking'', ''outdoor_activity''),
      (''tour'', ''tour_guided''),
      (''outdoor'', ''outdoor_activity'')]"

text \<open>\<^verbatim>\<open>CarbonService.calculateActivityEmissions(activityType, count)\<close>\<close>

definition calculateActivityEmissions :: "database \<Rightarrow> string \<Rightarrow> real \<Rightarrow> real" where
  "calculateActivityEmissions db activityType count =
     (if activityType = [] \<or> count \<le> 0 then 0
      else
        (case findByCategoryAndSubCategory db ''activity''
                (or_str (activityMap (toLowerCase activityType)) activityType) of
           Inl e \<Rightarrow> 0
         | Inr None \<Rightarrow> count * 1.5
         | Inr (Some factor) \<Rightarrow> count * factor_kg_per_unit factor))"

section \<open>Green score\<close>

text \<open>The piecewise \<^verbatim>\<open>score\<close> of \<^verbatim>\<open>calculateGreenScore\<close>, before rounding.\<close>

definition score :: "real \<Rightarrow> real" where
  "score dailyEmissions =
     (if dailyEmissions < 5 then 100 - dailyEmissions * 2
      else if dailyEmissions < 15 then 90 - (dailyEmissions - 5) * 4
      else if dailyEmissions < 30 then 50 - (dailyEmissions - 15) * 2
      else if dailyEmissions < 50 then 20 - (dailyEmissions - 30) * 0.5
      else max 0 (10 - (dailyEmissions - 50) * 0.2))"

text \<open>\<^verbatim>\<open>CarbonService.calculateGreenScore(totalCarbonKg, tripDays)\<close>\<close>

definition calculateGreenScore :: "real \<Rightarrow> real \<Rightarrow> real" where
  "calculateGreenScore totalCarbonKg tripDays =
     (if totalCarbonKg = 0 \<or> tripDays = 0 \<or> tripDays \<le> 0 then 0
      else max 0 (min 100 (js_round (score (totalCarbonKg / tripDays)))))"

section \<open>Itinerary documents\<close>

text \<open>
  An activity object. Every property is optional: an AI draft may omit it, and an object
  literal that does not list a property leaves it \<^verbatim>\<open>undefined\<close>. The properties
  \<^verbatim>\<open>id\<close>, \<^verbatim>\<open>name\<close>, \<^verbatim>\<open>type\<close> and \<^verbatim>\<open>category\<close> carry the prefix \<open>act_\<close>.
\<close>

record activity =
  act_id :: "string option"
  time :: "string option"
  title :: "string option"
  act_name :: "string option"
  location :: "string option"
  duration_hours :: "real option"
  estimated_cost :: "real option"
  cost :: "real option"
  carbon_kg :: "real option"
  act_type :: "string option"
  act_category :: "string option"
  description :: "string option"
  transport_mode :: "string option"
  transport_distance_km :: "real option"
  eco_alternative :: "string option"
  sustainability_tip :: "string option"

record meals =
  breakfast :: string
  lunch :: string
  dinner :: string

text \<open>A day of the itinerary; its property \<^verbatim>\<open>meals\<close> is the field \<open>day_meals\<close>.\<close>

record day =
  day :: "real option"
  date :: "int option"
  theme :: "string option"
  activities :: "activity list option"
  day_meals :: "meals option"
  daily_cost :: "real option"

text \<open>
  The itinerary document. \<open>days = None\<close> stands for a missing \<^verbatim>\<open>days\<close> or one that is
  not an array. The last four properties are the ones \<^verbatim>\<open>ItineraryService\<close> adds.
\<close>

record itinerary =
  summary :: "string option"
  sustainability_score :: "real option"
  estimated_total_cost :: "real option"
  days :: "day list option"
  packing_tips :: "string list"
  eco_tips :: "string list"
  local_customs :: "string list"
  destination_coordinates :: "(real \<times> real) option"
  transport_carbon :: "real option"
  accommodation_carbon :: "real option"
  activities_carbon :: "real option"

text \<open>
  The validated request body \<^verbatim>\<open>tripData\<close> of \<^verbatim>\<open>POST /api/trips/generate\<close>;
  \<open>start_date\<close> and \<open>end_date\<close> are day numbers.
\<close>

record trip_request =
  destination :: string
  start_date :: int
  end_date :: int
  budget :: real
  interests :: "string list"
  travel_style :: string
  accommodation_preference :: string
  transport_preference :: string

section \<open>Itinerary drafting and normalisation\<close>

text \<open>
  \<^verbatim>\<open>differenceInDays(new Date(end_date), new Date(start_date)) + 1\<close>, the expression
  every \<open>numDays\<close> of the source is bound to.
\<close>

definition requestDays :: "time_zone \<Rightarrow> trip_request \<Rightarrow> int" where
  "requestDays tz tripData =
     differenceInDays tz (newDate (end_date tripData)) (newDate (start_date tripData)) + 1"

text \<open>
  The date of the day \<open>k\<close> days after the start:
  \<^verbatim>\<open>dayDate = new Date(startDate); dayDate.setDate(startDate.getDate() + k)\<close>, then
  \<^verbatim>\<open>dayDate.toISOString().split('T')[0]\<close>.
\<close>

definition dayDate :: "time_zone \<Rightarrow> int \<Rightarrow> int \<Rightarrow> int" where
  "dayDate tz startDate k = toISODate (setDateBy tz (newDate startDate) k)"

text \<open>
  The activity object literal of \<^verbatim>\<open>validateAndEnhanceItinerary\<close>: it lists eleven
  properties, so the other five are \<^verbatim>\<open>undefined\<close> in the result.
\<close>

definition enhanceActivity :: "nat \<Rightarrow> nat \<Rightarrow> activity \<Rightarrow> activity" where
  "enhanceActivity index actIndex a =
     \<lparr> act_id = Some (or_str (act_id a) (show_nat (index + 1) @ ''-'' @ show_nat (actIndex + 1))),
       time = Some (or_str (time a) ''09:00''),
       title = Some (or_str (title a) (or_str (act_name a) ''Unnamed Activity'')),
       act_name = None,
       location = Some (or_str (location a) []),
       duration_hours = Some (or_num (duration_hours a) 2),
       estimated_cost = Some (or_num (estimated_cost a) (or_num (cost a) 0)),
       cost = None,
       carbon_kg = Some (or_num (carbon_kg a) 1.5),
       act_type = Some (or_str (act_type a) (or_str (act_category a) ''tour'')),
       act_category = None,
       description = Some (or_str (description a) []),
       transport_mode = Some (or_str (transport_mode a) ''walking''),
       transport_distance_km = None,
       eco_alternative = Some (or_str (eco_alternative a) (or_str (sustainability_tip a) [])),
       sustainability_tip = None \<rparr>"

text \<open>The day object literal: the spread of the draft day, then \<^verbatim>\<open>day\<close>, \<^verbatim>\<open>date\<close>, \<^verbatim>\<open>activities\<close>.\<close>

definition enhanceDay :: "time_zone \<Rightarrow> int \<Rightarrow> nat \<Rightarrow> day \<Rightarrow> day" where
  "enhanceDay tz startDate index d =
     d \<lparr> day := Some (or_num (day d) (real (index + 1))),
         date := Some (dayDate tz startDate (int index)),
         activities := Some (map (\<lambda>(actIndex, a). enhanceActivity index actIndex a)
                               (enumerate 0 (case activities d of None \<Rightarrow> [] | Some as \<Rightarrow> as))) \<rparr>"

text \<open>\<^verbatim>\<open>itinerary.days.map((day, index) => ...)\<close>\<close>

definition enhancedDays :: "time_zone \<Rightarrow> int \<Rightarrow> day list \<Rightarrow> day list" where
  "enhancedDays tz startDate ds =
     map (\<lambda>(index, d). enhanceDay tz startDate index d) (enumerate 0 ds)"

text \<open>\<^verbatim>\<open>OpenAIService.validateAndEnhanceItinerary(itinerary, tripData)\<close>\<close>

definition validateAndEnhanceItinerary ::
  "time_zone \<Rightarrow> itinerary \<Rightarrow> trip_request \<Rightarrow> error + itinerary" where
  "validateAndEnhanceItinerary tz it tripData =
     (case days it of
        None \<Rightarrow> Inl InvalidItinerary
      | Some ds \<Rightarrow>
          (let ds' = enhancedDays tz (start_date tripData) ds;
               it1 = it \<lparr> days := Some ds' \<rparr>;
               it2 = (if \<not> truthy_num (estimated_total_cost it1)
                      then it1 \<lparr> estimated_total_cost :=
                                   Some (foldl (\<lambda>sum d. sum + or_num (daily_cost d) 0) 0 ds') \<rparr>
                      else it1);
               it3 = (if \<not> truthy_num (sustainability_score it2)
                      then it2 \<lparr> sustainability_score := Some 75 \<rparr>
                      else it2)
           in Inr it3))"

text \<open>The five activities \<^verbatim>\<open>generateDemoItinerary\<close> pushes for day number \<open>d\<close>.\<close>

definition demoActivities :: "string \<Rightarrow> int \<Rightarrow> activity list" where
  "demoActivities dest d =
     [ \<lparr> act_id = Some (show_int d @ ''-1''), time = Some ''09:00'',
         title = Some (''Morning Exploration of '' @ dest), act_name = None,
         location = Some (''Central '' @ dest), duration_hours = Some 2,
         estimated_cost = Some 0, cost = None, carbon_kg = Some 0.5,
         act_type = Some ''outdoor_activity'', act_category = None,
         description = Some ''Start your day with a walking tour of the city center'',
         transport_mode = Some ''walking'', transport_distance_km = None,
         eco_alternative = Some ''Walking is the most eco-friendly way to explore'',
         sustainability_tip = None \<rparr>,
       \<lparr> act_id = Some (show_int d @ ''-2''), time = Some ''11:30'',
         title = Some ''Local Museum Visit'', act_name = None,
         location = Some ''City Museum'', duration_hours = Some 2,
         estimated_cost = Some 15, cost = None, carbon_kg = Some 2.0,
         act_type = Some ''museum'', act_category = None,
         description = Some ''Explore local history and culture'',
         transport_mode = Some ''walking'', transport_distance_km = None,
         eco_alternative = Some ''Support local cultural institutions'',
         sustainability_tip = None \<rparr>,
       \<lparr> act_id = Some (show_int d @ ''-3''), time = Some ''13:30'',
         title = Some ''Lunch at Local Restaurant'', act_name = None,
         location = Some ''Local Cuisine Restaurant'', duration_hours = Some 1.5,
         estimated_cost = Some 25, cost = None, carbon_kg = Some 3.5,
         act_type = Some ''restaurant'', act_category = None,
         description = Some ''Try authentic local dishes made with seasonal ingredients'',
         transport_mode = Some ''walking'', transport_distance_km = None,
         eco_alternative = Some ''Choose restaurants using locally-sourced ingredients'',
         sustainability_tip = None \<rparr>,
       \<lparr> act_id = Some (show_int d @ ''-4''), time = Some ''15:30'',
         title = Some ''Afternoon Cultural Experience'', act_name = None,
         location = Some ''Historic District'', duration_hours = Some 2,
         estimated_cost = Some 10, cost = None, carbon_kg = Some 1.5,
         act_type = Some ''tour'', act_category = None,
         description = Some ''Guided walking tour of historic landmarks'',
         transport_mode = Some ''walking'', transport_distance_km = None,
         eco_alternative = Some ''Walking tours have zero carbon footprint'',
         sustainability_tip = None \<rparr>,
       \<lparr> act_id = Some (show_int d @ ''-5''), time = Some ''18:00'',
         title = Some ''Evening Leisure'', act_name = None,
         location = Some ''City Park'', duration_hours = Some 1,
         estimated_cost = Some 0, cost = None, carbon_kg = Some 0,
         act_type = Some ''outdoor_activity'', act_category = None,
         description = Some ''Relax in a local park and enjoy the atmosphere'',
         transport_mode = Some ''walking'', transport_distance_km = None,
         eco_alternative = Some ''Public parks are free and eco-friendly'',
         sustainability_tip = None \<rparr> ]"

text \<open>The day object pushed by the loop body for day number \<open>d\<close>.\<close>

definition demoDay :: "time_zone \<Rightarrow> trip_request \<Rightarrow> int \<Rightarrow> int \<Rightarrow> day" where
  "demoDay tz tripData numDays d =
     \<lparr> day = Some (of_int d),
       date = Some (dayDate tz (start_date tripData) (d - 1)),
       theme = Some (if d = 1 then ''Arrival & Exploration''
                     else if d = numDays then ''Final Day & Departure''
                     else ''Discover '' @ destination tripData),
       activities = Some (demoActivities (destination tripData) d),
       day_meals = Some \<lparr> breakfast = ''Hotel breakfast or local bakery'',
                          lunch = ''Local restaurant with seasonal menu'',
                          dinner = ''Traditional local cuisine'' \<rparr>,
       daily_cost = Some (js_round (budget tripData / of_int numDays * 0.8)) \<rparr>"

text \<open>
  \<^verbatim>\<open>OpenAIService.generateDemoItinerary(tripData)\<close>. The loop
  \<^verbatim>\<open>for (let day = 1; day <= numDays; day++)\<close> pushes one day for each element of
  \<open>[1..numDays]\<close>.
\<close>

definition generateDemoItinerary :: "time_zone \<Rightarrow> trip_request \<Rightarrow> error + itinerary" where
  "generateDemoItinerary tz tripData =
     (let numDays = requestDays tz tripData;
          demoItinerary =
            \<lparr> summary = Some (''An eco-friendly '' @ show_int numDays @ ''-day adventure in ''
                   @ destination tripData
                   @ '' with sustainable transportation, local experiences, and carbon-conscious activities. This is a DEMO itinerary showing the platform's capabilities.''),
              sustainability_score = Some 85,
              estimated_total_cost = Some (min (budget tripData * 0.9) (budget tripData - 100)),
              days = Some (map (demoDay tz tripData numDays) [1..numDays]),
              packing_tips = [''Reusable water bottle'', ''Eco-friendly toiletries'',
                 ''Comfortable walking shoes'', ''Light, layered clothing'',
                 ''Reusable shopping bag''],
              eco_tips = [''Use public transportation whenever possible'',
                 ''Support local businesses and artisans'',
                 ''Choose restaurants with locally-sourced ingredients'',
                 ''Avoid single-use plastics'', ''Walk or cycle for short distances''],
              local_customs = [''Respect local customs and traditions'',
                 ''Learn a few basic phrases in the local language'',
                 ''Dress appropriately for cultural sites'',
                 ''Ask permission before taking photos of people''],
              destination_coordinates = None,
              transport_carbon = None,
              accommodation_carbon = None,
              activities_carbon = None \<rparr>
      in validateAndEnhanceItinerary tz demoItinerary tripData)"

text \<open>
  \<^verbatim>\<open>OpenAIService.generateItinerary(tripData)\<close>. The argument \<open>response\<close> is the outcome
  of the provider call and of \<^verbatim>\<open>JSON.parse\<close>: \<open>Inl\<close> when either throws, \<open>Inr\<close> the
  parsed draft. Every error inside the \<^verbatim>\<open>try\<close>, also the one of
  \<^verbatim>\<open>validateAndEnhanceItinerary\<close>, leads to the demo itinerary. The prompt built
  before the call is text for the provider only.
\<close>

definition generateItinerary ::
  "time_zone \<Rightarrow> error + itinerary \<Rightarrow> trip_request \<Rightarrow> error + itinerary" where
  "generateItinerary tz response tripData =
     (case response of
        Inl e \<Rightarrow> generateDemoItinerary tz tripData
      | Inr draft \<Rightarrow>
          (case validateAndEnhanceItinerary tz draft tripData of
             Inl e \<Rightarrow> generateDemoItinerary tz tripData
           | Inr it \<Rightarrow> Inr it))"

section \<open>Trip emissions\<close>

text \<open>
  The breakdown object \<^verbatim>\<open>calculateTripEmissions\<close> returns. Its property
  \<^verbatim>\<open>activities\<close> is the field \<open>activities_kg\<close> (a day has \<open>activities\<close> too).
\<close>

record emissions =
  transport :: real
  accommodation :: real
  activities_kg :: real
  total :: real

text \<open>
  The argument object of \<^verbatim>\<open>calculateTripEmissions\<close>; its properties
  \<^verbatim>\<open>accommodation_preference\<close>, \<^verbatim>\<open>nights\<close>, \<^verbatim>\<open>itinerary\<close> and
  \<^verbatim>\<open>destination_distance_km\<close> carry the prefix \<open>em_\<close>.
\<close>

record emissions_input =
  em_accommodation_preference :: "string option"
  em_nights :: "real option"
  em_itinerary :: "itinerary option"
  em_destination_distance_km :: "real option"

text \<open>
  The body of the inner loop \<^verbatim>\<open>for (const activity of day.activities)\<close>, on the pair
  of accumulators \<open>(transportEmissions, activityEmissions)\<close>.
\<close>

definition activityStep :: "database \<Rightarrow> real \<times> real \<Rightarrow> activity \<Rightarrow> real \<times> real" where
  "activityStep db acc a =
     (let (transportEmissions, activityEmissions) = acc;
          activityEmissions' =
            (if truthy_str (act_category a)
             then activityEmissions + calculateActivityEmissions db (the (act_category a)) 1
             else activityEmissions);
          transportEmissions' =
            (if truthy_num (transport_distance_km a) \<and> truthy_str (transport_mode a)
             then transportEmissions
                  + calculateTransportEmissions db (the (transport_mode a))
                      (the (transport_distance_km a))
             else transportEmissions)
      in (transportEmissions', activityEmissions'))"

text \<open>The body of the outer loop \<^verbatim>\<open>for (const day of tripData.itinerary.days)\<close>.\<close>

definition dayStep :: "database \<Rightarrow> real \<times> real \<Rightarrow> day \<Rightarrow> real \<times> real" where
  "dayStep db acc d =
     (case activities d of
        None \<Rightarrow> acc
      | Some as \<Rightarrow> foldl (activityStep db) acc as)"

text \<open>The flight class of the long-distance leg.\<close>

definition flightMode :: "real \<Rightarrow> string" where
  "flightMode destination_distance_km =
     (if destination_distance_km > 3700 then ''flight_long_haul''
      else if destination_distance_km > 500 then ''flight_medium_haul''
      else ''flight_short_haul'')"

text \<open>
  \<^verbatim>\<open>CarbonService.calculateTripEmissions(tripData)\<close>. The three calculators absorb
  their own errors, so on these typed inputs the outer \<^verbatim>\<open>catch\<close> is not reached.
\<close>

definition calculateTripEmissions :: "database \<Rightarrow> emissions_input \<Rightarrow> emissions" where
  "calculateTripEmissions db tripData =
     (let accommodationEmissions =
            (if truthy_str (em_accommodation_preference tripData) \<and> truthy_num (em_nights tripData)
             then calculateAccommodationEmissions db
                    (the (em_accommodation_preference tripData)) (the (em_nights tripData))
             else 0);
          (transportEmissions, activityEmissions) =
            (case em_itinerary tripData of
               None \<Rightarrow> (0, 0)
             | Some it \<Rightarrow>
                 (case days it of
                    None \<Rightarrow> (0, 0)
                  | Some ds \<Rightarrow> foldl (dayStep db) (0, 0) ds));
          transportEmissions' =
            (if truthy_num (em_destination_distance_km tripData)
                \<and> the (em_destination_distance_km tripData) > 100
             then transportEmissions
                  + calculateTransportEmissions db
                      (flightMode (the (em_destination_distance_km tripData)))
                      (the (em_destination_distance_km tripData) * 2)
             else transportEmissions);
          totalEmissions = transportEmissions' + accommodationEmissions + activityEmissions
      in \<lparr> transport = round2 transportEmissions',
           accommodation = round2 accommodationEmissions,
           activities_kg = round2 activityEmissions,
           total = round2 totalEmissions \<rparr>)"

section \<open>Trip generation\<close>

record location_data =
  formatted_address :: string
  latitude :: real
  longitude :: real
  place_id :: "string option"

text \<open>
  \<^verbatim>\<open>GooglePlacesService.geocodeDestination(destination)\<close>. The argument \<open>response\<close> is
  the outcome of the geocoding call: \<open>Inl\<close> when it throws, \<open>Inr\<close> the list
  \<^verbatim>\<open>response.data.results\<close>. Both the call's error and the one thrown for an empty
  list are rethrown as one error.
\<close>

definition geocodeDestination :: "error + location_data list \<Rightarrow> string \<Rightarrow> error + location_data" where
  "geocodeDestination response dest =
     (case response of
        Inl e \<Rightarrow> Inl GeocodeFailed
      | Inr [] \<Rightarrow> Inl GeocodeFailed
      | Inr (result # rest) \<Rightarrow> Inr result)"

text \<open>\<^verbatim>\<open>ItineraryService.enhanceItineraryWithPlaceData(itinerary, locationData)\<close>\<close>

definition enhanceItineraryWithPlaceData :: "itinerary \<Rightarrow> location_data \<Rightarrow> itinerary" where
  "enhanceItineraryWithPlaceData it locationData =
     it \<lparr> destination_coordinates := Some (latitude locationData, longitude locationData) \<rparr>"

text \<open>The body of the loop over \<^verbatim>\<open>itinerary.days\<close> in \<^verbatim>\<open>calculateTotalCost\<close>.\<close>

definition costStep :: "real \<Rightarrow> day \<Rightarrow> real" where
  "costStep total0 d =
     (let total1 = (case activities d of
                      None \<Rightarrow> total0
                    | Some as \<Rightarrow> foldl (\<lambda>t a. t + or_num (cost a) 0) total0 as)
      in total1 + or_num (daily_cost d) 0)"

text \<open>\<^verbatim>\<open>ItineraryService.calculateTotalCost(itinerary)\<close>\<close>

definition calculateTotalCost :: "itinerary \<Rightarrow> real" where
  "calculateTotalCost it =
     (case days it of
        None \<Rightarrow> 0
      | Some ds \<Rightarrow> round2 (foldl costStep 0 ds))"

text \<open>
  The object \<^verbatim>\<open>generateTrip\<close> returns; its properties \<^verbatim>\<open>itinerary\<close> and
  \<^verbatim>\<open>location\<close> carry the prefix \<open>trip_\<close>.
\<close>

record trip =
  trip_itinerary :: itinerary
  trip_location :: location_data
  total_carbon_kg :: real
  total_cost :: real
  green_score :: real
  carbon_breakdown :: emissions

text \<open>
  \<^verbatim>\<open>ItineraryService.generateTrip(tripData)\<close>. \<open>tz\<close> is the time zone of the server
  process, \<open>geo\<close> and \<open>ai\<close> are the outcomes of the two provider calls. An error of any
  step after geocoding is rethrown.
\<close>

definition generateTrip ::
  "time_zone \<Rightarrow> database \<Rightarrow> error + location_data list \<Rightarrow> error + itinerary \<Rightarrow> trip_request
     \<Rightarrow> error + trip" where
  "generateTrip tz db geo ai tripData =
     (let locationData =
            (case geocodeDestination geo (destination tripData) of
               Inr l \<Rightarrow> l
             | Inl e \<Rightarrow> \<lparr> formatted_address = destination tripData, latitude = 0,
                          longitude = 0, place_id = None \<rparr>)
      in case generateItinerary tz ai tripData of
           Inl e \<Rightarrow> Inl e
         | Inr it \<Rightarrow>
             (let enhancedItinerary = enhanceItineraryWithPlaceData it locationData;
                  numDays = requestDays tz tripData;
                  emissions = calculateTripEmissions db
                    \<lparr> em_accommodation_preference = Some (accommodation_preference tripData),
                      em_nights = Some (of_int numDays),
                      em_itinerary = Some enhancedItinerary,
                      em_destination_distance_km = Some 0 \<rparr>;
                  greenScore = calculateGreenScore (total emissions) (of_int numDays);
                  totalCost = calculateTotalCost enhancedItinerary
              in Inr \<lparr> trip_itinerary = enhancedItinerary
                           \<lparr> transport_carbon := Some (transport emissions),
                             accommodation_carbon := Some (accommodation emissions),
                             activities_carbon := Some (activities_kg emissions) \<rparr>,
                         trip_location = locationData,
                         total_carbon_kg = total emissions,
                         total_cost = totalCost,
                         green_score = greenScore,
                         carbon_breakdown = emissions \<rparr>))"

section \<open>Seeded emission factors\<close>

text \<open>The transport, accommodation and activity rows of the seed script, all active.\<close>

definition seedRow :: "string \<Rightarrow> string \<Rightarrow> real \<Rightarrow> string \<Rightarrow> emission_factor" where
  "seedRow c s f u =
     \<lparr> category = c, sub_category = s, factor_kg_per_unit = f, unit = u, is_active = True \<rparr>"

definition emissionFactors :: "emission_factor list" where
  "emissionFactors =
     [ seedRow ''transport'' ''flight_short_haul'' 0.255 ''km'',
       seedRow ''transport'' ''flight_medium_haul'' 0.156 ''km'',
       seedRow ''transport'' ''flight_long_haul'' 0.195 ''km'',
       seedRow ''transport'' ''flight_domestic'' 0.255 ''km'',
       seedRow ''transport'' ''train_national'' 0.041 ''km'',
       seedRow ''transport'' ''train_international'' 0.006 ''km'',
       seedRow ''transport'' ''train_light_rail'' 0.035 ''km'',
       seedRow ''transport'' ''train_underground'' 0.031 ''km'',
       seedRow ''transport'' ''bus_local'' 0.105 ''km'',
       seedRow ''transport'' ''bus_coach'' 0.028 ''km'',
       seedRow ''transport'' ''car_small'' 0.142 ''km'',
       seedRow ''transport'' ''car_medium'' 0.171 ''km'',
       seedRow ''transport'' ''car_large'' 0.209 ''km'',
       seedRow ''transport'' ''car_average'' 0.171 ''km'',
       seedRow ''transport'' ''car_electric'' 0.047 ''km'',
       seedRow ''transport'' ''taxi_regular'' 0.211 ''km'',
       seedRow ''transport'' ''taxi_black_cab'' 0.225 ''km'',
       seedRow ''transport'' ''motorcycle_small'' 0.084 ''km'',
       seedRow ''transport'' ''motorcycle_large'' 0.135 ''km'',
       seedRow ''transport'' ''ferry_foot'' 0.019 ''km'',
       seedRow ''transport'' ''ferry_car'' 0.129 ''km'',
       seedRow ''transport'' ''bicycle'' 0.0 ''km'',
       seedRow ''transport'' ''walking'' 0.0 ''km'',
       seedRow ''accommodation'' ''hotel_budget'' 15.2 ''night'',
       seedRow ''accommodation'' ''hotel_standard'' 20.9 ''night'',
       seedRow ''accommodation'' ''hotel_luxury'' 35.5 ''night'',
       seedRow ''accommodation'' ''hostel'' 8.5 ''night'',
       seedRow ''accommodation'' ''eco_lodge'' 5.2 ''night'',
       seedRow ''accommodation'' ''airbnb'' 12.5 ''night'',
       seedRow ''accommodation'' ''camping'' 2.5 ''night'',
       seedRow ''activity'' ''museum_indoor'' 2.0 ''visit'',
       seedRow ''activity'' ''outdoor_activity'' 0.5 ''activity'',
       seedRow ''activity'' ''restaurant_meal'' 3.5 ''meal'',
       seedRow ''activity'' ''fast_food_meal'' 2.1 ''meal'',
       seedRow ''activity'' ''cafe_snack'' 0.8 ''visit'',
       seedRow ''activity'' ''shopping_mall'' 1.0 ''visit'',
       seedRow ''activity'' ''entertainment_venue'' 1.5 ''visit'',
       seedRow ''activity'' ''theme_park'' 8.5 ''visit'',
       seedRow ''activity'' ''spa_wellness'' 4.2 ''visit'',
       seedRow ''activity'' ''water_sports'' 6.5 ''activity'',
       seedRow ''activity'' ''tour_guided'' 3.0 ''tour'' ]"

section \<open>The claims' own words\<close>

text \<open>
  The definitions of this section do not come from the source. They spell out the sums
  the specification speaks of, to be compared with what the code computes.
\<close>

text \<open>Every activity of every day of the itinerary handed to \<^verbatim>\<open>calculateTripEmissions\<close>.\<close>

definition dayActivities :: "day \<Rightarrow> activity list" where
  "dayActivities d = (case activities d of None \<Rightarrow> [] | Some as \<Rightarrow> as)"

definition itineraryActivities :: "itinerary \<Rightarrow> activity list" where
  "itineraryActivities it =
     (case days it of None \<Rightarrow> [] | Some ds \<Rightarrow> concat (map dayActivities ds))"

definition inputActivities :: "emissions_input \<Rightarrow> activity list" where
  "inputActivities tripData =
     (case em_itinerary tripData of None \<Rightarrow> [] | Some it \<Rightarrow> itineraryActivities it)"

text \<open>The emission of one activity's category, and of its transport leg.\<close>

definition activityEmission :: "database \<Rightarrow> activity \<Rightarrow> real" where
  "activityEmission db a =
     (if truthy_str (act_category a)
      then calculateActivityEmissions db (the (act_category a)) 1 else 0)"

definition legEmission :: "database \<Rightarrow> activity \<Rightarrow> real" where
  "legEmission db a =
     (if truthy_num (transport_distance_km a) \<and> truthy_str (transport_mode a)
      then calculateTransportEmissions db (the (transport_mode a)) (the (transport_distance_km a))
      else 0)"

text \<open>The round-trip leg, present when a destination distance above 100 km is supplied.\<close>

definition hasFlightLeg :: "emissions_input \<Rightarrow> bool" where
  "hasFlightLeg tripData =
     (case em_destination_distance_km tripData of None \<Rightarrow> False | Some km \<Rightarrow> km > 100)"

definition flightLegEmission :: "database \<Rightarrow> emissions_input \<Rightarrow> real" where
  "flightLegEmission db tripData =
     (case em_destination_distance_km tripData of
        None \<Rightarrow> 0
      | Some km \<Rightarrow>
          if km > 100 then calculateTransportEmissions db (flightMode km) (km * 2) else 0)"

text \<open>The three un-rounded component sums.\<close>

definition transportSum :: "database \<Rightarrow> emissions_input \<Rightarrow> real" where
  "transportSum db tripData =
     sum_list (map (legEmission db) (inputActivities tripData)) + flightLegEmission db tripData"

definition accommodationSum :: "database \<Rightarrow> emissions_input \<Rightarrow> real" where
  "accommodationSum db tripData =
     (case (em_accommodation_preference tripData, em_nights tripData) of
        (Some type, Some nights) \<Rightarrow> calculateAccommodationEmissions db type nights
      | _ \<Rightarrow> 0)"

definition activitySum :: "database \<Rightarrow> emissions_input \<Rightarrow> real" where
  "activitySum db tripData = sum_list (map (activityEmission db) (inputActivities tripData))"

text \<open>
  The total cost as C1 words it: every activity's estimated cost plus every day's
  \<open>daily_cost\<close>, rounded to 2 decimal places.
\<close>

definition claimedTotalCost :: "itinerary \<Rightarrow> real" where
  "claimedTotalCost it =
     round2 (sum_list (map (\<lambda>a. or_num (estimated_cost a) 0) (itineraryActivities it))
             + sum_list (map (\<lambda>d. or_num (daily_cost d) 0)
                           (case days it of None \<Rightarrow> [] | Some ds \<Rightarrow> ds)))"

text \<open>
  The properties an activity has after normalisation: the eleven the object literal
  lists are present, the other five are absent.
\<close>

definition normalisedActivity :: "activity \<Rightarrow> bool" where
  "normalisedActivity a =
     (act_id a \<noteq> None \<and> time a \<noteq> None \<and> title a \<noteq> None \<and> location a \<noteq> None
      \<and> duration_hours a \<noteq> None \<and> estimated_cost a \<noteq> None \<and> carbon_kg a \<noteq> None
      \<and> act_type a \<noteq> None \<and> description a \<noteq> None \<and> transport_mode a \<noteq> None
      \<and> eco_alternative a \<noteq> None
      \<and> act_name a = None \<and> cost a = None \<and> act_category a = None
      \<and> transport_distance_km a = None \<and> sustainability_tip a = None)"

section \<open>Example inputs\<close>

text \<open>A one-day and a three-day request (2026-06-01 is day 20605).\<close>

definition oneDayRequest :: trip_request where
  "oneDayRequest =
     \<lparr> destination = ''Paris, France'', start_date = 20605, end_date = 20605, budget = 100,
       interests = [''food''], travel_style = ''balanced'',
       accommodation_preference = ''hotel_standard'', transport_preference = ''mixed'' \<rparr>"

definition threeDayRequest :: trip_request where
  "threeDayRequest =
     \<lparr> destination = ''Paris, France'', start_date = 20605, end_date = 20607, budget = 2000,
       interests = [''culture'', ''food''], travel_style = ''balanced'',
       accommodation_preference = ''hostel'', transport_preference = ''train'' \<rparr>"

text \<open>
  Two three-day requests across the clock changes of 2026: 24 to 26 October (days 20750
  to 20752) and 28 to 30 March (days 20540 to 20542).
\<close>

definition octoberRequest :: trip_request where
  "octoberRequest = threeDayRequest \<lparr> start_date := 20750, end_date := 20752 \<rparr>"

definition marchRequest :: trip_request where
  "marchRequest = threeDayRequest \<lparr> start_date := 20540, end_date := 20542 \<rparr>"

text \<open>An itinerary without days, and one draft day with a priced museum visit.\<close>

definition emptyItinerary :: itinerary where
  "emptyItinerary =
     \<lparr> summary = None, sustainability_score = None, estimated_total_cost = None,
       days = Some [], packing_tips = [], eco_tips = [], local_customs = [],
       destination_coordinates = None, transport_carbon = None,
       accommodation_carbon = None, activities_carbon = None \<rparr>"

definition draftActivity :: activity where
  "draftActivity =
     \<lparr> act_id = None, time = None, title = None, act_name = Some ''Louvre'',
       location = None, duration_hours = None, estimated_cost = None, cost = Some 17,
       carbon_kg = None, act_type = None, act_category = Some ''museum'',
       description = None, transport_mode = Some ''train'',
       transport_distance_km = Some 12, eco_alternative = None,
       sustainability_tip = None \<rparr>"

definition draftItinerary :: itinerary where
  "draftItinerary =
     emptyItinerary \<lparr> days := Some [ \<lparr> day = None, date = None, theme = None,
                                       activities = Some [draftActivity],
                                       day_meals = None, daily_cost = Some 40 \<rparr> ] \<rparr>"

text \<open>
  A table with two sub-cent factors, and an itinerary whose single activity has a
  category and a transport leg.
\<close>

definition smallFactors :: "emission_factor list" where
  "smallFactors =
     [ seedRow ''transport'' ''train_national'' 0.041 ''km'',
       seedRow ''activity'' ''stroll'' 0.004 ''visit'' ]"

definition strollItinerary :: itinerary where
  "strollItinerary =
     emptyItinerary \<lparr> days := Some [ \<lparr> day = Some 1, date = None, theme = None,
         activities = Some [ draftActivity \<lparr> act_category := Some ''stroll'',
                                              transport_distance_km := Some 0.1 \<rparr> ],
         day_meals = None, daily_cost = None \<rparr> ] \<rparr>"

definition strollInput :: emissions_input where
  "strollInput =
     \<lparr> em_accommodation_preference = None, em_nights = Some 0,
       em_itinerary = Some strollItinerary, em_destination_distance_km = None \<rparr>"

text \<open>No activities, no nights, and a destination at the given distance.\<close>

definition emptyTripAt :: "real \<Rightarrow> emissions_input" where
  "emptyTripAt km =
     \<lparr> em_accommodation_preference = Some ''hostel'', em_nights = Some 0,
       em_itinerary = Some emptyItinerary, em_destination_distance_km = Some km \<rparr>"

section \<open>Properties of the green score\<close>

lemma js_round_mono: "x \<le> y \<Longrightarrow> js_round x \<le> js_round y"
  unfolding js_round_def by (simp add: floor_mono)

lemma score_antimono: "a \<le> b \<Longrightarrow> score b \<le> score a"
  unfolding score_def by (auto simp: max_def; argo)

lemma score_lipschitz: "\<bar>score a - score b\<bar> \<le> 4 * \<bar>a - b\<bar>"
  unfolding score_def by (auto simp: max_def abs_if; argo)

lemma round_score_small:
  assumes "0 < a" and "a \<le> 1 / 4"
  shows "js_round (score a) = 100"
proof -
  have "score a = 100 - a * 2"
    using assms by (simp add: score_def)
  moreover have "\<lfloor>100 - a * 2 + 1 / 2\<rfloor> = 100"
    using assms by (simp add: floor_eq_iff)
  ultimately show ?thesis
    by (simp add: js_round_def)
qed

lemma green_score_range:
  "calculateGreenScore x d \<in> \<int> \<and> 0 \<le> calculateGreenScore x d \<and> calculateGreenScore x d \<le> 100"
  unfolding calculateGreenScore_def js_round_def by (auto simp: max_def min_def)

text \<open>
  C3, as the code has it: for every \<open>tripDays = d > 0\<close>, \<open>calculateGreenScore(0, d)\<close>
  returns 0, because a zero total is caught by the guard \<^verbatim>\<open>!totalCarbonKg\<close>; the score
  100 is returned for every positive total of at most \<open>d / 4\<close> kg.
\<close>

theorem C3_zero_total_scores_zero:
  assumes "0 < d"
  shows "calculateGreenScore 0 d = 0
         \<and> (0 < x \<and> x \<le> d / 4 \<longrightarrow> calculateGreenScore x d = 100)"
proof (intro conjI impI)
  show "calculateGreenScore 0 d = 0"
    by (simp add: calculateGreenScore_def)
next
  assume x: "0 < x \<and> x \<le> d / 4"
  have a: "0 < x / d"
    using assms x by simp
  have b: "x / d \<le> 1 / 4"
    using assms x by (simp add: pos_divide_le_eq)
  show "calculateGreenScore x d = 100"
    using assms x round_score_small [OF a b] by (simp add: calculateGreenScore_def)
qed

theorem C3_zero_total_scores_zero_witness:
  "(0::real) < 3 \<and> calculateGreenScore 0 3 = 0
   \<and> (0::real) < 1 / 2 \<and> (1 / 2 :: real) \<le> 3 / 4 \<and> calculateGreenScore (1 / 2) 3 = 100"
  using C3_zero_total_scores_zero [of 3 "1 / 2"] by simp

text \<open>C3 as stated fails: a one-day trip with zero emissions scores 0, not 100.\<close>

theorem C3_counterexample: "calculateGreenScore 0 1 \<noteq> 100"
  by (simp add: calculateGreenScore_def)

text \<open>
  C4, as the code has it: for every fixed \<open>tripDays = d > 0\<close>, \<open>calculateGreenScore(x, d)\<close>
  is non-increasing in \<open>x\<close> over all \<open>x > 0\<close>.
\<close>

theorem C4_non_increasing_on_positive_totals:
  assumes "0 < d" and "0 < x" and "x \<le> y"
  shows "calculateGreenScore y d \<le> calculateGreenScore x d"
proof -
  have "x / d \<le> y / d"
    using assms by (simp add: divide_right_mono)
  then have "js_round (score (y / d)) \<le> js_round (score (x / d))"
    by (intro js_round_mono score_antimono)
  then show ?thesis
    using assms unfolding calculateGreenScore_def by (simp add: max_def min_def)
qed

theorem C4_non_increasing_on_positive_totals_witness:
  "(0::real) < 2 \<and> (0::real) < 7 \<and> (7::real) \<le> 40
   \<and> calculateGreenScore 40 2 \<le> calculateGreenScore 7 2"
  using C4_non_increasing_on_positive_totals [of 2 7 40] by simp

text \<open>
  C4 as stated fails at \<open>x = 0\<close>: on a one-day trip the score rises from 0 at a total
  of 0 kg to 98 at a total of 1 kg.
\<close>

theorem C4_counterexample:
  "(0::real) \<le> 1 \<and> calculateGreenScore 0 1 = 0 \<and> calculateGreenScore 1 1 = 98"
  by (simp add: calculateGreenScore_def score_def js_round_def)

text \<open>
  C5: daily emissions of 5, 15, 30 and 50 kg/day give the scores 90, 50, 20 and 10, for
  any \<open>d > 0\<close>; at each breakpoint the value of \<open>score\<close> (taken by the branch that starts
  there) equals the formula of the branch that ends there, and \<open>score\<close> has no jump;
  the result is always an integer between 0 and 100.
\<close>

theorem C5_breakpoint_scores:
  assumes "0 < d"
  shows "calculateGreenScore (5 * d) d = 90
         \<and> calculateGreenScore (15 * d) d = 50
         \<and> calculateGreenScore (30 * d) d = 20
         \<and> calculateGreenScore (50 * d) d = 10
         \<and> score 5 = 100 - 5 * 2
         \<and> score 15 = 90 - (15 - 5) * 4
         \<and> score 30 = 50 - (30 - 15) * 2
         \<and> score 50 = 20 - (50 - 30) * 0.5
         \<and> \<bar>score a - score b\<bar> \<le> 4 * \<bar>a - b\<bar>
         \<and> calculateGreenScore x t \<in> \<int>
         \<and> 0 \<le> calculateGreenScore x t \<and> calculateGreenScore x t \<le> 100"
proof -
  have bp: "calculateGreenScore (5 * d) d = 90" "calculateGreenScore (15 * d) d = 50"
    "calculateGreenScore (30 * d) d = 20" "calculateGreenScore (50 * d) d = 10"
    using assms by (simp_all add: calculateGreenScore_def score_def js_round_def)
  have br: "score 5 = 100 - 5 * 2" "score 15 = 90 - (15 - 5) * 4"
    "score 30 = 50 - (30 - 15) * 2" "score 50 = 20 - (50 - 30) * 0.5"
    by (simp_all add: score_def)
  show ?thesis
    using bp br score_lipschitz [of a b] green_score_range [of x t] by simp
qed

theorem C5_breakpoint_scores_witness:
  "(0::real) < 7
   \<and> calculateGreenScore 35 7 = 90 \<and> calculateGreenScore 105 7 = 50
   \<and> calculateGreenScore 210 7 = 20 \<and> calculateGreenScore 350 7 = 10"
  using C5_breakpoint_scores [of 7] by simp

section \<open>Properties of the carbon calculator\<close>

subsection \<open>The accumulators of \<open>calculateTripEmissions\<close> as sums\<close>

lemma foldl_activityStep:
  "foldl (activityStep db) (t, c) as =
     (t + sum_list (map (legEmission db) as), c + sum_list (map (activityEmission db) as))"
  by (induction as arbitrary: t c)
     (simp_all add: activityStep_def legEmission_def activityEmission_def)

lemma dayStep_sums:
  "dayStep db (t, c) d =
     (t + sum_list (map (legEmission db) (dayActivities d)),
      c + sum_list (map (activityEmission db) (dayActivities d)))"
  by (cases "activities d") (simp_all add: dayStep_def dayActivities_def foldl_activityStep)

lemma foldl_dayStep:
  "foldl (dayStep db) (t, c) ds =
     (t + sum_list (map (legEmission db) (concat (map dayActivities ds))),
      c + sum_list (map (activityEmission db) (concat (map dayActivities ds))))"
  by (induction ds arbitrary: t c) (simp_all add: dayStep_sums)

lemma itinerary_loop:
  "(case em_itinerary td of
      None \<Rightarrow> (0, 0)
    | Some it \<Rightarrow> (case days it of None \<Rightarrow> (0, 0) | Some ds \<Rightarrow> foldl (dayStep db) (0, 0) ds))
   = (sum_list (map (legEmission db) (inputActivities td)),
      sum_list (map (activityEmission db) (inputActivities td)))"
  by (simp add: inputActivities_def itineraryActivities_def foldl_dayStep
           split: option.splits)

lemma accommodation_guard:
  "(if truthy_str (em_accommodation_preference td) \<and> truthy_num (em_nights td)
    then calculateAccommodationEmissions db (the (em_accommodation_preference td))
           (the (em_nights td))
    else 0) = accommodationSum db td"
  by (cases "em_accommodation_preference td"; cases "em_nights td")
     (auto simp: accommodationSum_def calculateAccommodationEmissions_def)

lemma flight_guard:
  "(if truthy_num (em_destination_distance_km td) \<and> the (em_destination_distance_km td) > 100
    then t + calculateTransportEmissions db (flightMode (the (em_destination_distance_km td)))
               (the (em_destination_distance_km td) * 2)
    else t) = t + flightLegEmission db td"
  by (cases "em_destination_distance_km td") (auto simp: flightLegEmission_def)

lemma calculateTripEmissions_sums:
  "calculateTripEmissions db td =
     \<lparr> transport = round2 (transportSum db td),
       accommodation = round2 (accommodationSum db td),
       activities_kg = round2 (activitySum db td),
       total = round2 (transportSum db td + accommodationSum db td + activitySum db td) \<rparr>"
  unfolding calculateTripEmissions_def accommodation_guard itinerary_loop
  by (simp add: flight_guard transportSum_def activitySum_def Let_def)

lemmas eval_factors =
  emissionFactors_def seedRow_def transportSubCategory_def modeMap_def toLowerCase_def
  lower_char_def

lemmas eval_empty_trip =
  transportSum_def flightLegEmission_def inputActivities_def itineraryActivities_def
  emptyTripAt_def emptyItinerary_def flightMode_def calculateTransportEmissions_def
  round2_def js_round_def

lemma stroll_emissions:
  "calculateTripEmissions (Table smallFactors) strollInput =
     \<lparr> transport = 0, accommodation = 0, activities_kg = 0, total = 0.01 \<rparr>"
  by (simp add: calculateTripEmissions_sums transportSum_def flightLegEmission_def
        activitySum_def accommodationSum_def legEmission_def activityEmission_def
        inputActivities_def itineraryActivities_def dayActivities_def
        strollInput_def strollItinerary_def draftActivity_def emptyItinerary_def
        calculateTransportEmissions_def calculateActivityEmissions_def
        activityMap_def smallFactors_def seedRow_def transportSubCategory_def modeMap_def
        toLowerCase_def lower_char_def round2_def js_round_def)

subsection \<open>The long-distance leg\<close>

text \<open>Away from 500 km the code bands a distance as the seed rows describe the bands.\<close>

lemma flightMode_bands:
  "(km < 500 \<longrightarrow> flightMode km = ''flight_short_haul'')
   \<and> (500 < km \<and> km \<le> 3700 \<longrightarrow> flightMode km = ''flight_medium_haul'')
   \<and> (3700 < km \<longrightarrow> flightMode km = ''flight_long_haul'')"
  by (simp add: flightMode_def)

lemma flight_leg_added:
  assumes "em_destination_distance_km td = Some km" and "100 < km"
  shows "flightLegEmission db td = calculateTransportEmissions db (flightMode km) (km * 2)"
  using assms by (simp add: flightLegEmission_def)

lemma flight_leg_absent:
  assumes "em_destination_distance_km td = None
           \<or> (\<exists>km. em_destination_distance_km td = Some km \<and> km \<le> 100)"
  shows "flightLegEmission db td = 0"
  using assms by (auto simp: flightLegEmission_def)

text \<open>
  C8 at the boundary of the bands. The claim puts a destination distance of exactly
  500 km in the medium-haul band, as the seed rows describe the bands
  (\<^verbatim>\<open>'Short-haul flight (<500km)'\<close>, \<^verbatim>\<open>'Medium-haul flight (500-3700km)'\<close>). The test
  \<^verbatim>\<open>destination_distance_km > 500\<close> puts it in the short-haul band: with the seeded
  factors the 1000 km round trip is charged 255 kg, where the medium-haul factor gives
  156 kg.
\<close>

theorem C8_band_boundary_at_500:
  "flightMode 500 = ''flight_short_haul''
   \<and> transport (calculateTripEmissions (Table emissionFactors) (emptyTripAt 500)) = 255
   \<and> round2 (calculateTransportEmissions (Table emissionFactors) ''flight_medium_haul'' 1000)
       = 156"
  by (simp add: calculateTripEmissions_sums eval_empty_trip eval_factors)

subsection \<open>Rounding of the four fields\<close>

text \<open>
  C9, as the code has it: \<open>transport\<close>, \<open>accommodation\<close> and \<open>activities\<close> are the
  component sums, each rounded to 2 decimal places, and \<open>total\<close> is the rounded sum of
  the un-rounded components; for an itinerary with zero activities and zero nights, and
  no destination distance above 100 km, all four fields are 0. On the last example the
  three rounded components are 0 and the total is 0.01, so the total is not the sum of
  the rounded fields.
\<close>

theorem C9_fields_rounded_independently:
  "calculateTripEmissions db td =
     \<lparr> transport = round2 (transportSum db td),
       accommodation = round2 (accommodationSum db td),
       activities_kg = round2 (activitySum db td),
       total = round2 (transportSum db td + accommodationSum db td + activitySum db td) \<rparr>
   \<and> (inputActivities td = [] \<and> em_nights td = Some 0 \<and> \<not> hasFlightLeg td
        \<longrightarrow> calculateTripEmissions db td =
              \<lparr> transport = 0, accommodation = 0, activities_kg = 0, total = 0 \<rparr>)
   \<and> calculateTripEmissions (Table smallFactors) strollInput =
       \<lparr> transport = 0, accommodation = 0, activities_kg = 0, total = 0.01 \<rparr>"
proof (intro conjI impI)
  show "calculateTripEmissions db td =
     \<lparr> transport = round2 (transportSum db td),
       accommodation = round2 (accommodationSum db td),
       activities_kg = round2 (activitySum db td),
       total = round2 (transportSum db td + accommodationSum db td + activitySum db td) \<rparr>"
    by (rule calculateTripEmissions_sums)
next
  assume h: "inputActivities td = [] \<and> em_nights td = Some 0 \<and> \<not> hasFlightLeg td"
  have t: "transportSum db td = 0"
    using h by (auto simp: transportSum_def flightLegEmission_def hasFlightLeg_def
                     split: option.splits)
  have a: "accommodationSum db td = 0"
    using h by (auto simp: accommodationSum_def calculateAccommodationEmissions_def
                     split: option.splits)
  have c: "activitySum db td = 0"
    using h by (simp add: activitySum_def)
  show "calculateTripEmissions db td =
          \<lparr> transport = 0, accommodation = 0, activities_kg = 0, total = 0 \<rparr>"
    by (simp add: calculateTripEmissions_sums t a c round2_def js_round_def)
next
  show "calculateTripEmissions (Table smallFactors) strollInput =
          \<lparr> transport = 0, accommodation = 0, activities_kg = 0, total = 0.01 \<rparr>"
    by (rule stroll_emissions)
qed

theorem C9_fields_rounded_independently_witness:
  "inputActivities (emptyTripAt 50) = [] \<and> em_nights (emptyTripAt 50) = Some 0
   \<and> \<not> hasFlightLeg (emptyTripAt 50)
   \<and> calculateTripEmissions (Table emissionFactors) (emptyTripAt 50) =
       \<lparr> transport = 0, accommodation = 0, activities_kg = 0, total = 0 \<rparr>"
proof -
  have h: "inputActivities (emptyTripAt 50) = [] \<and> em_nights (emptyTripAt 50) = Some 0
           \<and> \<not> hasFlightLeg (emptyTripAt 50)"
    by (simp add: inputActivities_def itineraryActivities_def emptyTripAt_def
          emptyItinerary_def hasFlightLeg_def)
  show ?thesis
    using h C9_fields_rounded_independently [of "Table emissionFactors" "emptyTripAt 50"]
    by blast
qed

text \<open>
  C9 as stated fails: with zero activities and zero nights, a destination 200 km away
  adds the 400 km round trip, 102 kg with the seeded factors.
\<close>

theorem C9_counterexample:
  "inputActivities (emptyTripAt 200) = [] \<and> em_nights (emptyTripAt 200) = Some 0
   \<and> transport (calculateTripEmissions (Table emissionFactors) (emptyTripAt 200)) = 102"
  by (simp add: calculateTripEmissions_sums eval_empty_trip eval_factors)

subsection \<open>Unknown transport modes\<close>

text \<open>
  C10, as the code has it: for any non-empty mode string whose sub-category has no
  active factor, \<open>calculateTransportEmissions\<close> falls back to the car-average factor;
  at distance 100 it yields 17.1 kg when the \<open>car_average\<close> row is absent or carries
  0.171. A failing lookup is absorbed: the result is then 0.
\<close>

theorem C10_unknown_mode_falls_back:
  assumes "mode \<noteq> []"
    and "findByCategoryAndSubCategory db ''transport'' (transportSubCategory mode) = Inr None"
  shows "(findByCategoryAndSubCategory db ''transport'' ''car_average'' = Inr None
            \<or> (\<exists>r. findByCategoryAndSubCategory db ''transport'' ''car_average'' = Inr (Some r)
                    \<and> factor_kg_per_unit r = 0.171)
          \<longrightarrow> calculateTransportEmissions db mode 100 = 17.1)
         \<and> (0 < km \<and> findByCategoryAndSubCategory db ''transport'' ''car_average'' = Inr (Some r)
          \<longrightarrow> calculateTransportEmissions db mode km = km * factor_kg_per_unit r)
         \<and> calculateTransportEmissions Unavailable m km = 0"
  using assms by (auto simp: calculateTransportEmissions_def)

theorem C10_unknown_mode_falls_back_witness:
  "''teleporter'' \<noteq> []
   \<and> findByCategoryAndSubCategory (Table emissionFactors) ''transport''
       (transportSubCategory ''teleporter'') = Inr None
   \<and> calculateTransportEmissions (Table emissionFactors) ''teleporter'' 100 = 17.1"
  using C10_unknown_mode_falls_back [of "''teleporter''" "Table emissionFactors"]
  by (simp add: eval_factors)

text \<open>
  C10 as stated fails for the empty mode string: no factor matches it, and the guard
  \<^verbatim>\<open>!mode\<close> returns 0 before any lookup.
\<close>

theorem C10_counterexample:
  "findByCategoryAndSubCategory (Table emissionFactors) ''transport'' (transportSubCategory [])
     = Inr None
   \<and> calculateTransportEmissions (Table emissionFactors) [] 100 = 0"
  by (simp add: calculateTransportEmissions_def eval_factors)

section \<open>Properties of the local clock\<close>

lemma differenceInDays_same: "differenceInDays tz t t = 0"
  by (simp add: differenceInDays_def compareLocalAsc_def Let_def)

lemma Day_shift: "Day (d * msPerDay + c) = d + Day c"
  by (simp add: Day_def msPerDay_def)

lemma TimeWithinDay_shift: "TimeWithinDay (d * msPerDay + c) = TimeWithinDay c"
  by (simp add: TimeWithinDay_def msPerDay_def)

lemma Day_TimeWithinDay: "Day c * msPerDay + TimeWithinDay c = c"
  by (simp add: Day_def TimeWithinDay_def)

text \<open>With a constant offset the dates behave as day numbers do.\<close>

lemma setDateBy_fixedOffset:
  "setDateBy (fixedOffset c) (d * msPerDay) k = (d + k) * msPerDay"
proof -
  have "(d + Day c + k) * msPerDay + TimeWithinDay c - c
          = (d + k) * msPerDay + (Day c * msPerDay + TimeWithinDay c) - c"
    by (simp add: algebra_simps)
  then show ?thesis
    by (simp add: setDateBy_def LocalTime_def UTC_def fixedOffset_def Day_shift
          TimeWithinDay_shift Day_TimeWithinDay)
qed

lemma dayDate_fixedOffset: "dayDate (fixedOffset c) s k = s + k"
  unfolding dayDate_def newDate_def setDateBy_fixedOffset toISODate_def
  by (simp add: Day_def msPerDay_def)

lemma differenceInDays_fixedOffset:
  "differenceInDays (fixedOffset c) (e * msPerDay) (s * msPerDay) = e - s"
proof -
  have cmp: "\<And>a b. compareLocalAsc (fixedOffset c) (a * msPerDay) (b * msPerDay) = sgn (a - b)"
    by (simp add: compareLocalAsc_def LocalTime_def fixedOffset_def msPerDay_def sgn_if)
  have cal: "differenceInCalendarDays (fixedOffset c) (e * msPerDay) (s * msPerDay) = e - s"
    by (simp add: differenceInCalendarDays_def LocalTime_def fixedOffset_def Day_shift)
  have ret: "e + - sgn (e - s) * \<bar>e - s\<bar> = s"
    by (simp add: sgn_if)
  show ?thesis
    unfolding differenceInDays_def Let_def cal cmp setDateBy_fixedOffset ret
    by (simp add: sgn_if)
qed

lemma requestDays_fixedOffset:
  "requestDays (fixedOffset c) req = end_date req - start_date req + 1"
  by (simp add: requestDays_def newDate_def differenceInDays_fixedOffset)

text \<open>The two requests across the clock changes, on the London clock.\<close>

lemmas eval_clock =
  europeLondon2026_def differenceInDays_def compareLocalAsc_def differenceInCalendarDays_def
  setDateBy_def LocalTime_def UTC_def Day_def TimeWithinDay_def newDate_def toISODate_def
  msPerDay_def dayDate_def Let_def

lemma october_days: "requestDays europeLondon2026 octoberRequest = 2"
  by (simp add: requestDays_def octoberRequest_def threeDayRequest_def eval_clock)

lemma october_dates:
  "dayDate europeLondon2026 20750 0 = 20750" "dayDate europeLondon2026 20750 1 = 20751"
  by (simp_all add: eval_clock)

lemma march_days: "requestDays europeLondon2026 marchRequest = 3"
  by (simp add: requestDays_def marchRequest_def threeDayRequest_def eval_clock)

lemma march_dates:
  "dayDate europeLondon2026 20540 0 = 20540" "dayDate europeLondon2026 20540 1 = 20541"
  "dayDate europeLondon2026 20540 2 = 20541"
  by (simp_all add: eval_clock)

section \<open>Properties of the generation pipeline\<close>

subsection \<open>Normalisation\<close>

lemma enhanceActivity_normalised: "normalisedActivity (enhanceActivity i j a)"
  by (simp add: normalisedActivity_def enhanceActivity_def)

lemma dayActivities_enhanceDay:
  "dayActivities (enhanceDay tz s i d) =
     map (\<lambda>(j, a). enhanceActivity i j a) (enumerate 0 (dayActivities d))"
  by (simp add: enhanceDay_def dayActivities_def)

lemma enhanceDay_normalised:
  "a \<in> set (dayActivities (enhanceDay tz s i d)) \<Longrightarrow> normalisedActivity a"
  by (auto simp: dayActivities_enhanceDay enhanceActivity_normalised)

lemma enhancedDays_normalised:
  "a \<in> set (concat (map dayActivities (enhancedDays tz s ds))) \<Longrightarrow> normalisedActivity a"
  by (auto simp: enhancedDays_def dest: enhanceDay_normalised)

lemma length_enhancedDays: "length (enhancedDays tz s ds) = length ds"
  by (simp add: enhancedDays_def)

lemma nth_enhancedDays:
  "i < length ds \<Longrightarrow> enhancedDays tz s ds ! i = enhanceDay tz s i (ds ! i)"
  by (simp add: enhancedDays_def nth_enumerate_eq)

lemma list_all_enhancedDays:
  "(\<And>i d. d \<in> set ds \<Longrightarrow> P (enhanceDay tz s i d)) \<Longrightarrow> list_all P (enhancedDays tz s ds)"
  by (auto simp: list_all_iff enhancedDays_def in_set_enumerate_eq)

lemma date_enhancedDays:
  "map date (enhancedDays tz s ds) = map (\<lambda>i. Some (dayDate tz s (int i))) [0..<length ds]"
  by (rule nth_equalityI) (simp_all add: length_enhancedDays nth_enhancedDays enhanceDay_def)

lemma daily_cost_enhancedDays:
  "map daily_cost (enhancedDays tz s ds) = map daily_cost ds"
  by (rule nth_equalityI) (simp_all add: length_enhancedDays nth_enhancedDays enhanceDay_def)

lemma validate_Some:
  assumes "days it = Some ds"
  shows "\<exists>it'. validateAndEnhanceItinerary tz it td = Inr it'
               \<and> days it' = Some (enhancedDays tz (start_date td) ds)"
  using assms by (simp add: validateAndEnhanceItinerary_def Let_def)

lemma validate_None: "days it = None \<Longrightarrow> validateAndEnhanceItinerary tz it td = Inl InvalidItinerary"
  by (simp add: validateAndEnhanceItinerary_def)

subsection \<open>Drafting never fails\<close>

lemma generateDemoItinerary_days:
  "\<exists>it'. generateDemoItinerary tz td = Inr it'
     \<and> days it' = Some (enhancedDays tz (start_date td)
          (map (demoDay tz td (requestDays tz td)) [1..requestDays tz td]))"
  unfolding generateDemoItinerary_def Let_def
  by (rule validate_Some) simp

lemma generateItinerary_days:
  "\<exists>it' ds. generateItinerary tz ai td = Inr it' \<and> days it' = Some (enhancedDays tz (start_date td) ds)"
proof (cases ai)
  case (Inl e)
  then show ?thesis
    using generateDemoItinerary_days [of tz td] by (auto simp: generateItinerary_def)
next
  case (Inr draft)
  show ?thesis
  proof (cases "days draft")
    case None
    then show ?thesis
      using Inr generateDemoItinerary_days [of tz td] validate_None [where it = draft and tz = tz and td = td]
      by (auto simp: generateItinerary_def)
  next
    case (Some ds)
    then show ?thesis
      using Inr validate_Some [where it = draft and ds = ds and tz = tz and td = td] by (auto simp: generateItinerary_def)
  qed
qed

lemma generateTrip_result:
  assumes "generateItinerary tz ai req = Inr it"
  shows "\<exists>loc. generateTrip tz db geo ai req =
      (let em = calculateTripEmissions db
                  \<lparr> em_accommodation_preference = Some (accommodation_preference req),
                    em_nights = Some (of_int (requestDays tz req)),
                    em_itinerary = Some (enhanceItineraryWithPlaceData it loc),
                    em_destination_distance_km = Some 0 \<rparr>
       in Inr \<lparr> trip_itinerary = enhanceItineraryWithPlaceData it loc
                   \<lparr> transport_carbon := Some (transport em),
                     accommodation_carbon := Some (accommodation em),
                     activities_carbon := Some (activities_kg em) \<rparr>,
                 trip_location = loc,
                 total_carbon_kg = total em,
                 total_cost = calculateTotalCost (enhanceItineraryWithPlaceData it loc),
                 green_score = calculateGreenScore (total em)
                                 (of_int (requestDays tz req)),
                 carbon_breakdown = em \<rparr>)"
  unfolding generateTrip_def Let_def assms by simp

lemma days_carbon:
  "days (enhanceItineraryWithPlaceData it loc
      \<lparr> transport_carbon := x, accommodation_carbon := y, activities_carbon := z \<rparr>)
   = days it"
  by (simp add: enhanceItineraryWithPlaceData_def)

lemma calculateTotalCost_place:
  "calculateTotalCost (enhanceItineraryWithPlaceData it loc) = calculateTotalCost it"
  by (simp add: calculateTotalCost_def enhanceItineraryWithPlaceData_def)

lemma generateTrip_projections:
  assumes "generateItinerary tz ai req = Inr it"
  shows "\<exists>t. generateTrip tz db geo ai req = Inr t
             \<and> days (trip_itinerary t) = days it
             \<and> total_cost t = calculateTotalCost it"
  using generateTrip_result [OF assms, of db geo]
  by (auto simp: Let_def days_carbon calculateTotalCost_place)

lemma itineraryActivities_carbon:
  "itineraryActivities (enhanceItineraryWithPlaceData it loc
      \<lparr> transport_carbon := x, accommodation_carbon := y, activities_carbon := z \<rparr>)
   = itineraryActivities it"
  by (simp add: itineraryActivities_def enhanceItineraryWithPlaceData_def)

subsection \<open>Emissions of a generated trip\<close>

lemma normalised_no_emission:
  assumes "normalisedActivity a"
  shows "legEmission db a = 0" and "activityEmission db a = 0"
  using assms by (simp_all add: normalisedActivity_def legEmission_def activityEmission_def)

lemma sum_list_zero: "(\<And>a. a \<in> set as \<Longrightarrow> f a = (0::real)) \<Longrightarrow> sum_list (map f as) = 0"
  by (induction as) simp_all

text \<open>
  C2: every trip \<open>generateTrip\<close> returns, from an AI draft or from the demo fallback, has
  \<open>carbon_breakdown.transport = 0\<close> and \<open>carbon_breakdown.activities = 0\<close>, and its
  \<open>total_carbon_kg\<close> is the rounded accommodation emission alone; every activity of its
  itinerary carries the eleven normalised properties and neither \<open>category\<close> nor
  \<open>transport_distance_km\<close>. The function returns such a trip on every input and in
  every time zone; the nights are the days the code counts for the request.
\<close>

theorem C2_generated_trip_counts_accommodation_only:
  "\<exists>t. generateTrip tz db geo ai req = Inr t
       \<and> transport (carbon_breakdown t) = 0
       \<and> activities_kg (carbon_breakdown t) = 0
       \<and> total_carbon_kg t = accommodation (carbon_breakdown t)
       \<and> total_carbon_kg t =
           round2 (calculateAccommodationEmissions db (accommodation_preference req)
                     (of_int (requestDays tz req)))
       \<and> list_all normalisedActivity (itineraryActivities (trip_itinerary t))"
proof -
  obtain it ds where it: "generateItinerary tz ai req = Inr it"
    and ds: "days it = Some (enhancedDays tz (start_date req) ds)"
    using generateItinerary_days [of tz ai req] by blast
  obtain loc where gt: "generateTrip tz db geo ai req =
      (let em = calculateTripEmissions db
                  \<lparr> em_accommodation_preference = Some (accommodation_preference req),
                    em_nights = Some (of_int (requestDays tz req)),
                    em_itinerary = Some (enhanceItineraryWithPlaceData it loc),
                    em_destination_distance_km = Some 0 \<rparr>
       in Inr \<lparr> trip_itinerary = enhanceItineraryWithPlaceData it loc
                   \<lparr> transport_carbon := Some (transport em),
                     accommodation_carbon := Some (accommodation em),
                     activities_carbon := Some (activities_kg em) \<rparr>,
                 trip_location = loc,
                 total_carbon_kg = total em,
                 total_cost = calculateTotalCost (enhanceItineraryWithPlaceData it loc),
                 green_score = calculateGreenScore (total em)
                                 (of_int (requestDays tz req)),
                 carbon_breakdown = em \<rparr>)"
    using generateTrip_result [OF it, of db geo] by blast
  define inp where "inp = \<lparr> em_accommodation_preference = Some (accommodation_preference req),
                      em_nights = Some (of_int (requestDays tz req)),
                      em_itinerary = Some (enhanceItineraryWithPlaceData it loc),
                      em_destination_distance_km = Some 0 \<rparr>"
  have its: "itineraryActivities it = concat (map dayActivities (enhancedDays tz (start_date req) ds))"
    by (simp add: itineraryActivities_def ds)
  have acts: "inputActivities inp = concat (map dayActivities (enhancedDays tz (start_date req) ds))"
    by (simp add: inp_def inputActivities_def itineraryActivities_def
          enhanceItineraryWithPlaceData_def ds)
  have norm: "\<And>a. a \<in> set (inputActivities inp) \<Longrightarrow> normalisedActivity a"
    unfolding acts by (rule enhancedDays_normalised)
  have T: "transportSum db inp = 0"
    using norm by (simp add: transportSum_def sum_list_zero normalised_no_emission
                      flightLegEmission_def inp_def)
  have C: "activitySum db inp = 0"
    using norm by (simp add: activitySum_def sum_list_zero normalised_no_emission)
  have A: "accommodationSum db inp =
             calculateAccommodationEmissions db (accommodation_preference req)
               (of_int (requestDays tz req))"
    by (simp add: accommodationSum_def inp_def)
  have r0: "round2 0 = 0"
    by (simp add: round2_def js_round_def)
  have em: "calculateTripEmissions db inp =
     \<lparr> transport = 0,
       accommodation = round2 (calculateAccommodationEmissions db (accommodation_preference req)
               (of_int (requestDays tz req))),
       activities_kg = 0,
       total = round2 (calculateAccommodationEmissions db (accommodation_preference req)
               (of_int (requestDays tz req))) \<rparr>"
    by (simp add: calculateTripEmissions_sums T C A r0)
  have allnorm: "list_all normalisedActivity (itineraryActivities it)"
    using norm unfolding acts its by (simp add: list_all_iff)
  show ?thesis
    unfolding gt inp_def [symmetric] em Let_def
    using allnorm by (simp add: itineraryActivities_carbon)
qed

text \<open>
  An AI draft whose only activity has a category, a transport leg of 12 km and a
  \<open>cost\<close>: the trip generated from it still has no transport and no activity emissions.
\<close>

theorem C2_generated_trip_counts_accommodation_only_witness:
  "\<exists>t. generateTrip (fixedOffset 0) (Table emissionFactors) (Inl GeocodeFailed)
           (Inr draftItinerary) oneDayRequest = Inr t
       \<and> transport (carbon_breakdown t) = 0
       \<and> activities_kg (carbon_breakdown t) = 0
       \<and> total_carbon_kg t = accommodation (carbon_breakdown t)
       \<and> total_carbon_kg t =
           round2 (calculateAccommodationEmissions (Table emissionFactors)
                     (accommodation_preference oneDayRequest)
                     (of_int (requestDays (fixedOffset 0) oneDayRequest)))
       \<and> list_all normalisedActivity (itineraryActivities (trip_itinerary t))"
  by (rule C2_generated_trip_counts_accommodation_only)

subsection \<open>The demo fallback\<close>

lemma upto_as_offsets: "[s..e] = map (\<lambda>i. s + int i) [0..<nat (e - s + 1)]"
  by (rule nth_equalityI) simp_all

lemma demo_days_dates:
  "map date (enhancedDays tz s (map f [1..n])) =
     map (\<lambda>i. Some (dayDate tz s (int i))) [0..<nat n]"
  by (simp add: date_enhancedDays)

lemma demo_days_dates_fixedOffset:
  "map date (enhancedDays (fixedOffset c) s (map f [1..e - s + 1])) = map Some [s..e]"
  by (simp add: date_enhancedDays dayDate_fixedOffset upto_as_offsets [of s e])

lemma enhanced_demo_activities:
  "activities (enhanceDay tz s i (demoDay tz req n k)) =
     Some (map (\<lambda>(j, a). enhanceActivity i j a)
             (enumerate 0 (demoActivities (destination req) k)))"
  by (simp add: enhanceDay_def demoDay_def)


lemma demo_days_nonempty:
  "list_all (\<lambda>d. \<exists>as. activities d = Some as \<and> as \<noteq> [])
     (enhancedDays tz s (map (demoDay tz req n) [1..n]))"
  by (rule list_all_enhancedDays) (auto simp: enhanced_demo_activities demoActivities_def)


text \<open>The trip returned when the provider call fails.\<close>

lemma fallback_trip:
  "\<exists>t. generateTrip tz db geo (Inl e) req = Inr t
       \<and> days (trip_itinerary t) =
           Some (enhancedDays tz (start_date req)
                   (map (demoDay tz req (requestDays tz req)) [1..requestDays tz req]))"
proof -
  obtain it where it: "generateDemoItinerary tz req = Inr it"
    and ds: "days it = Some (enhancedDays tz (start_date req)
                   (map (demoDay tz req (requestDays tz req)) [1..requestDays tz req]))"
    using generateDemoItinerary_days [of tz req] by blast
  have gi: "generateItinerary tz (Inl e) req = Inr it"
    by (simp add: generateItinerary_def it)
  show ?thesis
    using generateTrip_projections [OF gi, of db geo] ds by auto
qed

lemma fallback_dates:
  "\<not> isl (generateTrip tz db geo (Inl e) req)
   \<and> map date (the (days (trip_itinerary (projr (generateTrip tz db geo (Inl e) req)))))
       = map (\<lambda>i. Some (dayDate tz (start_date req) (int i))) [0..<nat (requestDays tz req)]"
proof -
  obtain t where t: "generateTrip tz db geo (Inl e) req = Inr t"
    and ds: "days (trip_itinerary t) =
           Some (enhancedDays tz (start_date req)
                   (map (demoDay tz req (requestDays tz req)) [1..requestDays tz req]))"
    using fallback_trip [of tz db geo e req] by blast
  show ?thesis
    unfolding t by (simp add: ds demo_days_dates)
qed

text \<open>With a constant offset the fallback covers the request.\<close>

lemma fallback_covers_request_fixedOffset:
  assumes "start_date req \<le> end_date req"
  shows "\<exists>t ds. generateTrip (fixedOffset c) db geo (Inl e) req = Inr t
           \<and> days (trip_itinerary t) = Some ds
           \<and> int (length ds) = end_date req - start_date req + 1
           \<and> map date ds = map Some [start_date req..end_date req]
           \<and> list_all (\<lambda>d. \<exists>as. activities d = Some as \<and> as \<noteq> []) ds"
proof -
  let ?n = "end_date req - start_date req + 1"
  let ?ds = "enhancedDays (fixedOffset c) (start_date req)
               (map (demoDay (fixedOffset c) req ?n) [1..?n])"
  obtain t where t: "generateTrip (fixedOffset c) db geo (Inl e) req = Inr t"
    and ds: "days (trip_itinerary t) = Some ?ds"
    using fallback_trip [of "fixedOffset c" db geo e req]
    unfolding requestDays_fixedOffset by blast
  have len: "int (length ?ds) = end_date req - start_date req + 1"
    using assms by (simp add: length_enhancedDays)
  have dates: "map date ?ds = map Some [start_date req..end_date req]"
    by (rule demo_days_dates_fixedOffset)
  have nonempty: "list_all (\<lambda>d. \<exists>as. activities d = Some as \<and> as \<noteq> []) ?ds"
    by (rule demo_days_nonempty)
  show ?thesis
    using t ds len dates nonempty by (intro exI conjI)
qed

lemma upt_two: "[0..<nat 2] = [0, 1]"
  by (simp add: numeral_2_eq_2 upt_rec)

lemma upt_three: "[0..<nat 3] = [0, 1, 2]"
  by (simp add: numeral_3_eq_3 upt_rec)

text \<open>
  C6 on the code. When the AI provider call fails, \<open>generateTrip\<close> returns a trip (no
  error reaches the caller) and every day of its itinerary has a non-empty activity
  list. The number of days is not always \<open>end_date - start_date + 1\<close>: it is counted by
  \<^verbatim>\<open>differenceInDays\<close> on the local clock, between two midnights of UTC. On the
  London clock the request from 24 to 26 October 2026 gets two days, dated 24 and 25
  October, and the request from 28 to 30 March 2026 gets three days dated 28, 29 and
  29 March.
\<close>

theorem C6_fallback_day_count_follows_local_clock:
  "(\<exists>t ds. generateTrip tz db geo (Inl e) req = Inr t
        \<and> days (trip_itinerary t) = Some ds
        \<and> list_all (\<lambda>d. \<exists>as. activities d = Some as \<and> as \<noteq> []) ds)
   \<and> \<not> isl (generateTrip europeLondon2026 Unavailable (Inl GeocodeFailed) (Inl ProviderFailed)
              octoberRequest)
   \<and> end_date octoberRequest - start_date octoberRequest + 1 = 3
   \<and> map date (the (days (trip_itinerary (projr
        (generateTrip europeLondon2026 Unavailable (Inl GeocodeFailed) (Inl ProviderFailed)
           octoberRequest)))))
       = [Some 20750, Some 20751]
   \<and> map date (the (days (trip_itinerary (projr
        (generateTrip europeLondon2026 Unavailable (Inl GeocodeFailed) (Inl ProviderFailed)
           marchRequest)))))
       = [Some 20540, Some 20541, Some 20541]"
proof (intro conjI)
  show "\<exists>t ds. generateTrip tz db geo (Inl e) req = Inr t
        \<and> days (trip_itinerary t) = Some ds
        \<and> list_all (\<lambda>d. \<exists>as. activities d = Some as \<and> as \<noteq> []) ds"
  proof -
    obtain t where t: "generateTrip tz db geo (Inl e) req = Inr t"
      and ds: "days (trip_itinerary t) =
           Some (enhancedDays tz (start_date req)
                   (map (demoDay tz req (requestDays tz req)) [1..requestDays tz req]))"
      using fallback_trip [of tz db geo e req] by blast
    show ?thesis
      using t ds demo_days_nonempty [of tz "start_date req" req "requestDays tz req"]
      by (intro exI conjI)
  qed
next
  show "\<not> isl (generateTrip europeLondon2026 Unavailable (Inl GeocodeFailed)
                 (Inl ProviderFailed) octoberRequest)"
    by (rule fallback_dates [THEN conjunct1])
next
  show "end_date octoberRequest - start_date octoberRequest + 1 = 3"
    by (simp add: octoberRequest_def)
next
  have s: "start_date octoberRequest = 20750"
    by (simp add: octoberRequest_def)
  show "map date (the (days (trip_itinerary (projr
        (generateTrip europeLondon2026 Unavailable (Inl GeocodeFailed) (Inl ProviderFailed)
           octoberRequest)))))
       = [Some 20750, Some 20751]"
    using fallback_dates [of europeLondon2026 Unavailable "Inl GeocodeFailed" ProviderFailed
                            octoberRequest, THEN conjunct2]
    unfolding s october_days upt_two by (simp add: october_dates)
next
  have s: "start_date marchRequest = 20540"
    by (simp add: marchRequest_def)
  show "map date (the (days (trip_itinerary (projr
        (generateTrip europeLondon2026 Unavailable (Inl GeocodeFailed) (Inl ProviderFailed)
           marchRequest)))))
       = [Some 20540, Some 20541, Some 20541]"
    using fallback_dates [of europeLondon2026 Unavailable "Inl GeocodeFailed" ProviderFailed
                            marchRequest, THEN conjunct2]
    unfolding s march_days upt_three by (simp add: march_dates)
qed



lemmas eval_demo =
  generateDemoItinerary_def validateAndEnhanceItinerary_def enhancedDays_def enhanceDay_def
  enhanceActivity_def demoDay_def demoActivities_def oneDayRequest_def
  itineraryActivities_def dayActivities_def requestDays_def differenceInDays_same Let_def


subsection \<open>Total cost\<close>

lemma foldl_cost_absent:
  "(\<And>a. a \<in> set as \<Longrightarrow> cost a = None) \<Longrightarrow> foldl (\<lambda>t a. t + or_num (cost a) 0) t as = t"
  by (induction as arbitrary: t) simp_all

lemma costStep_cost_absent:
  assumes "\<And>a. a \<in> set (dayActivities d) \<Longrightarrow> cost a = None"
  shows "costStep t d = t + or_num (daily_cost d) 0"
  using assms
  by (cases "activities d") (simp_all add: costStep_def dayActivities_def foldl_cost_absent)

lemma foldl_costStep_cost_absent:
  "(\<And>a. a \<in> set (concat (map dayActivities ds)) \<Longrightarrow> cost a = None) \<Longrightarrow>
     foldl costStep t ds = t + sum_list (map (\<lambda>d. or_num (daily_cost d) 0) ds)"
  by (induction ds arbitrary: t) (simp_all add: costStep_cost_absent)

text \<open>
  C1 on the code. \<open>calculateTotalCost\<close> reads \<^verbatim>\<open>activity.cost\<close>, a property no normalised
  activity has (normalisation stores the cost as \<open>estimated_cost\<close>), so for every trip
  the pipeline returns \<open>total_cost\<close> is the rounded sum of the \<open>daily_cost\<close> fields alone.
  For the one-day demo fallback with budget 100 it is 80, in every time zone, where
  every activity's estimated cost plus every day's \<open>daily_cost\<close> is 130.
\<close>

theorem C1_total_cost_omits_activity_costs:
  "(\<exists>t ds. generateTrip tz db geo ai req = Inr t
        \<and> days (trip_itinerary t) = Some ds
        \<and> total_cost t = round2 (sum_list (map (\<lambda>d. or_num (daily_cost d) 0) ds)))
   \<and> \<not> isl (generateTrip tz Unavailable (Inl GeocodeFailed) (Inl ProviderFailed) oneDayRequest)
   \<and> total_cost (projr (generateTrip tz Unavailable (Inl GeocodeFailed) (Inl ProviderFailed)
                          oneDayRequest)) = 80
   \<and> claimedTotalCost (trip_itinerary
        (projr (generateTrip tz Unavailable (Inl GeocodeFailed) (Inl ProviderFailed)
                  oneDayRequest))) = 130"
proof (intro conjI)
  obtain it ds where it: "generateItinerary tz ai req = Inr it"
    and ds: "days it = Some (enhancedDays tz (start_date req) ds)"
    using generateItinerary_days [of tz ai req] by blast
  obtain t where t: "generateTrip tz db geo ai req = Inr t"
    and td: "days (trip_itinerary t) = days it"
    and tc: "total_cost t = calculateTotalCost it"
    using generateTrip_projections [OF it, of db geo] by blast
  have absent: "\<And>a. a \<in> set (concat (map dayActivities (enhancedDays tz (start_date req) ds)))
                  \<Longrightarrow> cost a = None"
    using enhancedDays_normalised by (auto simp: normalisedActivity_def)
  have "total_cost t =
          round2 (sum_list (map (\<lambda>d. or_num (daily_cost d) 0)
                              (enhancedDays tz (start_date req) ds)))"
    unfolding tc calculateTotalCost_def ds
    using foldl_costStep_cost_absent [OF absent, of "enhancedDays tz (start_date req) ds" 0]
    by simp
  then show "\<exists>t ds. generateTrip tz db geo ai req = Inr t
        \<and> days (trip_itinerary t) = Some ds
        \<and> total_cost t = round2 (sum_list (map (\<lambda>d. or_num (daily_cost d) 0) ds))"
    using t td ds by auto
next
  show "\<not> isl (generateTrip tz Unavailable (Inl GeocodeFailed) (Inl ProviderFailed) oneDayRequest)"
    by (simp add: generateTrip_def generateItinerary_def eval_demo)
next
  show "total_cost (projr (generateTrip tz Unavailable (Inl GeocodeFailed) (Inl ProviderFailed)
                          oneDayRequest)) = 80"
    by (simp add: generateTrip_def generateItinerary_def eval_demo geocodeDestination_def
          enhanceItineraryWithPlaceData_def calculateTotalCost_def costStep_def
          round2_def js_round_def)
next
  show "claimedTotalCost (trip_itinerary
        (projr (generateTrip tz Unavailable (Inl GeocodeFailed) (Inl ProviderFailed)
                  oneDayRequest))) = 130"
    by (simp add: generateTrip_def generateItinerary_def eval_demo geocodeDestination_def
          enhanceItineraryWithPlaceData_def claimedTotalCost_def
          round2_def js_round_def)
qed

end
